theory Spec2Isabelle
  imports Main "HOL-Library.AList"
begin

section \<open>Strings\<close>

text \<open>
  Python \<open>str\<close> values are modelled as \<open>string\<close> (lists of 8-bit characters); the
  helpers below are the \<open>str\<close> methods the bot and \<open>urllib.parse\<close> call, on ASCII.
\<close>

type_synonym exn = string

definition is_space :: "char \<Rightarrow> bool" where
  "is_space c = ((of_char c :: nat) \<in> {9, 10, 11, 12, 13, 28, 29, 30, 31, 32})"

definition strip :: "string \<Rightarrow> string" where
  "strip s = rev (dropWhile is_space (rev (dropWhile is_space s)))"

definition lower_char :: "char \<Rightarrow> char" where
  "lower_char c =
     (let n = (of_char c :: nat) in if 65 \<le> n \<and> n \<le> 90 then char_of (n + 32) else c)"

definition lower :: "string \<Rightarrow> string" where
  "lower s = map lower_char s"

primrec split_on :: "char \<Rightarrow> string \<Rightarrow> string list" where
  "split_on c [] = [[]]"
| "split_on c (x # xs) =
     (if x = c then [] # split_on c xs
      else (case split_on c xs of [] \<Rightarrow> [[x]] | y # ys \<Rightarrow> (x # y) # ys))"

fun join_with :: "char \<Rightarrow> string list \<Rightarrow> string" where
  "join_with c [] = []"
| "join_with c [x] = x"
| "join_with c (x # y # ys) = x @ c # join_with c (y # ys)"

text \<open>\<open>s.split(c, 1)\<close> for a \<open>c\<close> that occurs in \<open>s\<close>: the text before and after its first
  occurrence.\<close>

definition split_first :: "char \<Rightarrow> string \<Rightarrow> string \<times> string" where
  "split_first c s = (takeWhile (\<lambda>x. x \<noteq> c) s, drop 1 (dropWhile (\<lambda>x. x \<noteq> c) s))"

section \<open>Reference resolution: \<open>urllib.parse.urljoin\<close>\<close>

text \<open>
  The bot resolves every \<open>href\<close>, \<open>src\<close> and form \<open>action\<close> with the standard library's
  \<open>urljoin\<close>. The function is not part of the repository; the definitions below follow
  the algorithm of CPython's \<open>urllib.parse\<close> (\<open>urlsplit\<close>, \<open>urlparse\<close>, \<open>urlunparse\<close>,
  \<open>urljoin\<close>) step by step. A \<open>ValueError\<close> raised for an unbalanced bracket in the
  network location is the \<open>Inl\<close> result; the validation of a balanced bracketed host and
  the NFKC check of non-ASCII hosts are left out.
\<close>

definition uses_relative :: "string list" where
  "uses_relative = ['''', ''ftp'', ''http'', ''gopher'', ''nntp'', ''imap'', ''wais'', ''file'',
     ''https'', ''shttp'', ''mms'', ''prospero'', ''rtsp'', ''rtsps'', ''rtspu'', ''sftp'',
     ''svn'', ''svn+ssh'', ''ws'', ''wss'']"

definition uses_netloc :: "string list" where
  "uses_netloc = ['''', ''ftp'', ''http'', ''gopher'', ''nntp'', ''telnet'', ''imap'', ''wais'',
     ''file'', ''mms'', ''https'', ''shttp'', ''snews'', ''prospero'', ''rtsp'', ''rtsps'',
     ''rtspu'', ''rsync'', ''svn'', ''svn+ssh'', ''sftp'', ''nfs'', ''git'', ''git+ssh'',
     ''ws'', ''wss'', ''itms-services'']"

definition uses_params :: "string list" where
  "uses_params = ['''', ''ftp'', ''hdl'', ''prospero'', ''http'', ''imap'', ''https'', ''shttp'',
     ''rtsp'', ''rtsps'', ''rtspu'', ''sip'', ''sips'', ''mms'', ''sftp'', ''tel'']"

definition is_alpha :: "char \<Rightarrow> bool" where
  "is_alpha c = (let n = (of_char c :: nat) in (65 \<le> n \<and> n \<le> 90) \<or> (97 \<le> n \<and> n \<le> 122))"

definition is_digit :: "char \<Rightarrow> bool" where
  "is_digit c = (let n = (of_char c :: nat) in 48 \<le> n \<and> n \<le> 57)"

definition scheme_char :: "char \<Rightarrow> bool" where
  "scheme_char c = (is_alpha c \<or> is_digit c \<or> c \<in> set ''+-.'')"

record split_result =
  sr_scheme :: string
  sr_netloc :: string
  sr_path :: string
  sr_query :: string
  sr_fragment :: string

definition split_scheme :: "string \<Rightarrow> string \<Rightarrow> string \<times> string" where
  "split_scheme url scheme =
     (let pre = takeWhile (\<lambda>c. c \<noteq> CHR '':'') url in
      if CHR '':'' \<in> set url \<and> pre \<noteq> [] \<and> is_alpha (hd url) \<and> list_all scheme_char pre
      then (lower pre, drop (length pre + 1) url)
      else (scheme, url))"

definition netloc_delim :: "char \<Rightarrow> bool" where
  "netloc_delim c = (c \<in> set ''/?#'')"

definition urlsplit :: "string \<Rightarrow> string \<Rightarrow> exn + split_result" where
  "urlsplit url0 scheme0 =
     (let url1 = filter (\<lambda>c. c \<notin> set [CHR 0x09, CHR 0x0D, CHR 0x0A])
                   (dropWhile (\<lambda>c. (of_char c :: nat) \<le> 32) url0);
          (scheme, url2) = split_scheme url1 scheme0;
          (netloc, url3) =
            (if take 2 url2 = ''//''
             then (takeWhile (\<lambda>c. \<not> netloc_delim c) (drop 2 url2),
                   dropWhile (\<lambda>c. \<not> netloc_delim c) (drop 2 url2))
             else ('''', url2))
      in if (CHR ''['' \<in> set netloc \<and> CHR '']'' \<notin> set netloc)
            \<or> (CHR '']'' \<in> set netloc \<and> CHR ''['' \<notin> set netloc)
         then Inl ''Invalid IPv6 URL''
         else
           (let (url4, fragment) =
                  (if CHR ''#'' \<in> set url3 then split_first (CHR ''#'') url3 else (url3, ''''));
                (url5, query) =
                  (if CHR ''?'' \<in> set url4 then split_first (CHR ''?'') url4 else (url4, ''''))
            in Inr \<lparr>sr_scheme = scheme, sr_netloc = netloc, sr_path = url5,
                     sr_query = query, sr_fragment = fragment\<rparr>))"

text \<open>\<open>_splitparams\<close>: the parameters are what follows the first \<open>;\<close> of the last path
  segment.\<close>

definition splitparams :: "string \<Rightarrow> string \<times> string" where
  "splitparams url =
     (let segs = split_on (CHR ''/'') url;
          lastseg = last segs;
          front = take (length url - length lastseg) url
      in if CHR ''/'' \<in> set url
         then (if CHR '';'' \<in> set lastseg
               then (front @ fst (split_first (CHR '';'') lastseg),
                     snd (split_first (CHR '';'') lastseg))
               else (url, ''''))
         else split_first (CHR '';'') url)"

record parse_result =
  pr_scheme :: string
  pr_netloc :: string
  pr_path :: string
  pr_params :: string
  pr_query :: string
  pr_fragment :: string

definition urlparse :: "string \<Rightarrow> string \<Rightarrow> exn + parse_result" where
  "urlparse url scheme =
     (case urlsplit url scheme of
        Inl e \<Rightarrow> Inl e
      | Inr r \<Rightarrow>
          (let (path, params) =
                 (if sr_scheme r \<in> set uses_params \<and> CHR '';'' \<in> set (sr_path r)
                  then splitparams (sr_path r) else (sr_path r, ''''))
           in Inr \<lparr>pr_scheme = sr_scheme r, pr_netloc = sr_netloc r, pr_path = path,
                    pr_params = params, pr_query = sr_query r,
                    pr_fragment = sr_fragment r\<rparr>))"

definition urlunsplit :: "string \<Rightarrow> string \<Rightarrow> string \<Rightarrow> string \<Rightarrow> string \<Rightarrow> string" where
  "urlunsplit scheme netloc url0 query fragment =
     (let url1 =
            (if netloc \<noteq> '''' \<or> (scheme \<noteq> '''' \<and> scheme \<in> set uses_netloc \<and> take 2 url0 \<noteq> ''//'')
             then ''//'' @ netloc @ (if url0 \<noteq> '''' \<and> take 1 url0 \<noteq> ''/'' then ''/'' @ url0 else url0)
             else url0);
          url2 = (if scheme \<noteq> '''' then scheme @ '':'' @ url1 else url1);
          url3 = (if query \<noteq> '''' then url2 @ ''?'' @ query else url2)
      in if fragment \<noteq> '''' then url3 @ ''#'' @ fragment else url3)"

definition urlunparse :: "parse_result \<Rightarrow> string" where
  "urlunparse p =
     urlunsplit (pr_scheme p) (pr_netloc p)
       (if pr_params p \<noteq> '''' then pr_path p @ '';'' @ pr_params p else pr_path p)
       (pr_query p) (pr_fragment p)"

text \<open>\<open>segments[1:-1] = filter(None, segments[1:-1])\<close>: the empty segments between the
  first and the last one are dropped.\<close>

fun filter_middle :: "string list \<Rightarrow> string list" where
  "filter_middle [] = []"
| "filter_middle [x] = [x]"
| "filter_middle (x # y # ys) = x # filter (\<lambda>s. s \<noteq> '''') (butlast (y # ys)) @ [last (y # ys)]"

text \<open>The loop over the segments: \<open>..\<close> pops the last resolved segment (and is ignored on
  an empty stack), \<open>.\<close> is skipped, anything else is appended.\<close>

definition resolve_step :: "string list \<Rightarrow> string \<Rightarrow> string list" where
  "resolve_step resolved seg =
     (if seg = ''..'' then butlast resolved
      else if seg = ''.'' then resolved
      else resolved @ [seg])"

definition resolve_segments :: "string list \<Rightarrow> string list" where
  "resolve_segments segments =
     (let resolved = foldl resolve_step [] segments
      in if last segments \<in> {''.'', ''..''} then resolved @ [''''] else resolved)"

definition urljoin :: "string \<Rightarrow> string \<Rightarrow> exn + string" where
  "urljoin base url =
     (if base = '''' then Inr url
      else if url = '''' then Inr base
      else
        (case urlparse base '''' of
           Inl e \<Rightarrow> Inl e
         | Inr b \<Rightarrow>
            (case urlparse url (pr_scheme b) of
               Inl e \<Rightarrow> Inl e
             | Inr u \<Rightarrow>
                 if pr_scheme u \<noteq> pr_scheme b \<or> pr_scheme u \<notin> set uses_relative then Inr url
                 else if pr_scheme u \<in> set uses_netloc \<and> pr_netloc u \<noteq> ''''
                 then Inr (urlunparse u)
                 else
                   (let netloc = (if pr_scheme u \<in> set uses_netloc then pr_netloc b
                                  else pr_netloc u)
                    in if pr_path u = '''' \<and> pr_params u = ''''
                       then Inr (urlunparse
                              (u\<lparr>pr_netloc := netloc, pr_path := pr_path b,
                                 pr_params := pr_params b,
                                 pr_query := (if pr_query u = '''' then pr_query b
                                              else pr_query u)\<rparr>))
                       else
                         (let parts0 = split_on (CHR ''/'') (pr_path b);
                              base_parts = (if last parts0 \<noteq> '''' then butlast parts0
                                            else parts0);
                              segments =
                                (if take 1 (pr_path u) = ''/''
                                 then split_on (CHR ''/'') (pr_path u)
                                 else filter_middle
                                        (base_parts @ split_on (CHR ''/'') (pr_path u)));
                              joined = join_with (CHR ''/'') (resolve_segments segments)
                          in Inr (urlunparse
                                (u\<lparr>pr_netloc := netloc,
                                   pr_path := (if joined = '''' then ''/'' else joined)\<rparr>)))))))"

section \<open>Parsed markup: the \<open>bs4\<close> tree\<close>

text \<open>
  \<open>BeautifulSoup(html, 'html.parser')\<close> yields a tree of tags and text nodes. A tag has
  its name, its attribute dictionary (an association list with one entry per attribute
  name) and its children. The soup object itself is the list of the top-level nodes.
\<close>

datatype node = Tag string "(string \<times> string) list" "node list" | NavigableString string

type_synonym soup = "node list"

fun descendants :: "node \<Rightarrow> node list" where
  "descendants (Tag nm attrs cs) = concat (map (\<lambda>c. c # descendants c) cs)"
| "descendants (NavigableString s) = []"

definition soup_descendants :: "soup \<Rightarrow> node list" where
  "soup_descendants cs = concat (map (\<lambda>c. c # descendants c) cs)"

fun is_tag_named :: "string list \<Rightarrow> node \<Rightarrow> bool" where
  "is_tag_named names (Tag nm attrs cs) = (nm \<in> set names)"
| "is_tag_named names (NavigableString s) = False"

text \<open>\<open>elem.get(attr)\<close> and \<open>elem.get(attr, default)\<close>.\<close>

fun attr_lookup :: "node \<Rightarrow> string \<Rightarrow> string option" where
  "attr_lookup (Tag nm attrs cs) a = map_of attrs a"
| "attr_lookup (NavigableString s) a = None"

definition attr_get :: "node \<Rightarrow> string \<Rightarrow> string \<Rightarrow> string" where
  "attr_get n a dflt = (case attr_lookup n a of None \<Rightarrow> dflt | Some v \<Rightarrow> v)"

text \<open>\<open>tag.find_all([names])\<close>: the descendant tags with one of the names, in document
  order; \<open>soup.find(name)\<close> and \<open>soup.find(name, attrs={a: v})\<close>: the first such tag.\<close>

definition tag_find_all :: "string list \<Rightarrow> node \<Rightarrow> node list" where
  "tag_find_all names n = filter (is_tag_named names) (descendants n)"

definition soup_find :: "string \<Rightarrow> soup \<Rightarrow> node option" where
  "soup_find nm s =
     (case filter (is_tag_named [nm]) (soup_descendants s) of [] \<Rightarrow> None | n # _ \<Rightarrow> Some n)"

definition soup_find_attr :: "string \<Rightarrow> string \<Rightarrow> string \<Rightarrow> soup \<Rightarrow> node option" where
  "soup_find_attr nm a v s =
     (case filter (\<lambda>n. is_tag_named [nm] n \<and> attr_lookup n a = Some v) (soup_descendants s) of
        [] \<Rightarrow> None
      | n # _ \<Rightarrow> Some n)"

text \<open>The text nodes below a node, \<open>get_text()\<close> (their concatenation) and
  \<open>get_text(strip=True)\<close> (each stripped, the empty ones dropped).\<close>

fun strings_of :: "node \<Rightarrow> string list" where
  "strings_of (Tag nm attrs cs) = concat (map strings_of cs)"
| "strings_of (NavigableString s) = [s]"

definition get_text_of :: "node \<Rightarrow> string" where
  "get_text_of n = concat (strings_of n)"

definition get_text_strip :: "node \<Rightarrow> string" where
  "get_text_strip n = concat (filter (\<lambda>s. s \<noteq> '''') (map strip (strings_of n)))"

definition soup_get_text :: "soup \<Rightarrow> string" where
  "soup_get_text s = concat (concat (map strings_of s))"

section \<open>The external collaborators\<close>

text \<open>
  The HTTP client, the markup parser, the selector engine and the browser driver are
  outside the repository. Their answers during one call of the bot are the fields of a
  \<open>world\<close>; a call that raises answers \<open>Inl\<close> with the exception's message. Web elements
  and drivers are opaque handles.
\<close>

record response =
  resp_status :: int
  resp_url :: string
  resp_text :: string

record world =
  http_get :: "string \<Rightarrow> (string \<times> string) list \<Rightarrow> exn + response"
  http_post :: "string \<Rightarrow> (string \<times> string) list \<Rightarrow> exn + response"
  parse_html :: "string \<Rightarrow> soup"
  css_select :: "string \<Rightarrow> soup \<Rightarrow> exn + node list"
  chrome_uc :: "bool \<Rightarrow> exn + nat"
  chrome_std :: "bool \<Rightarrow> exn + nat"
  drv_get :: "nat \<Rightarrow> string \<Rightarrow> exn + unit"
  drv_current_url :: "nat \<Rightarrow> exn + string"
  drv_page_source :: "nat \<Rightarrow> exn + string"
  drv_title :: "nat \<Rightarrow> exn + string"
  drv_wait :: "nat \<Rightarrow> string \<Rightarrow> int \<Rightarrow> exn + nat"
  drv_find_elements :: "nat \<Rightarrow> string \<Rightarrow> exn + nat list"
  drv_js_click :: "nat \<Rightarrow> nat \<Rightarrow> exn + unit"
  web_click :: "nat \<Rightarrow> exn + unit"
  web_clear :: "nat \<Rightarrow> exn + unit"
  web_send_keys :: "nat \<Rightarrow> char \<Rightarrow> exn + unit"
  web_send_return :: "nat \<Rightarrow> exn + unit"
  web_submit :: "nat \<Rightarrow> exn + unit"
  web_text :: "nat \<Rightarrow> exn + string"
  web_get_attribute :: "nat \<Rightarrow> string \<Rightarrow> exn + string option"

text \<open>\<open>soup.select_one(selector)\<close> is the first match of \<open>soup.select(selector)\<close>.\<close>

definition css_select_one :: "world \<Rightarrow> string \<Rightarrow> soup \<Rightarrow> exn + node option" where
  "css_select_one w selector s =
     (case css_select w selector s of
        Inl e \<Rightarrow> Inl e
      | Inr ns \<Rightarrow> Inr (case ns of [] \<Rightarrow> None | n # _ \<Rightarrow> Some n))"

section \<open>The session: class \<open>UltimateBot\<close>\<close>

text \<open>
  The fields of the bot that its methods assign. \<open>activity_log\<close> holds the entries that
  \<open>_log_activity\<close> appends, without their time stamps. The file logger, the printing and
  the random delays change no field and are left out.
\<close>

datatype activity =
    ActGoto string
  | ActLoaded string string
  | ActNavFailed exn
  | ActExtractingLinks
  | ActLinksDone nat
  | ActExtractingImages
  | ActImagesDone nat
  | ActAnalyzing
  | ActAnalysisDone nat nat
  | ActInfoFailed exn
  | ActSocial
  | ActSocialDone string bool

record bot =
  use_browser :: bool
  headless :: bool
  stealth :: bool
  use_tor :: bool
  driver :: "nat option"
  current_url :: string
  current_soup :: "soup option"
  activity_log :: "activity list"

text \<open>\<open>__init__\<close> with its keyword arguments.\<close>

definition init_bot :: "bool \<Rightarrow> bool \<Rightarrow> bool \<Rightarrow> bool \<Rightarrow> bot" where
  "init_bot ub hl st tor =
     \<lparr>use_browser = ub, headless = hl, stealth = st, use_tor = tor, driver = None,
      current_url = '''', current_soup = None, activity_log = []\<rparr>"

definition log_activity :: "activity \<Rightarrow> bot \<Rightarrow> bot" where
  "log_activity a b = b\<lparr>activity_log := activity_log b @ [a]\<rparr>"

text \<open>The test \<open>self.use_browser and self.driver\<close> that every method branches on: the
  driver when the session is in browser mode, \<open>None\<close> in requests mode.\<close>

definition active_driver :: "bot \<Rightarrow> nat option" where
  "active_driver b = (if use_browser b then driver b else None)"

datatype element = WebElement nat | SoupTag node

datatype target = BySelector string | ByElement element

subsection \<open>\<open>start_browser\<close>\<close>

text \<open>The strategies are tried in order; the first that returns a driver wins. Each
  raises on failure, which the loop catches. \<open>_apply_stealth\<close> assigns no field and
  catches its own exceptions.\<close>

fun first_driver :: "(exn + nat) list \<Rightarrow> nat option" where
  "first_driver [] = None"
| "first_driver (Inr d # ms) = Some d"
| "first_driver (Inl e # ms) = first_driver ms"

definition start_browser :: "world \<Rightarrow> bot \<Rightarrow> bool \<times> bot" where
  "start_browser w b =
     (if \<not> use_browser b \<or> driver b \<noteq> None then (True, b)
      else
        (case first_driver [chrome_uc w (headless b), chrome_std w (headless b)] of
           Some d \<Rightarrow> (True, b\<lparr>driver := Some d\<rparr>)
         | None \<Rightarrow> (True, b\<lparr>use_browser := False\<rparr>)))"

subsection \<open>\<open>find\<close>, \<open>find_all\<close>, \<open>get_title\<close>\<close>

definition find :: "world \<Rightarrow> bot \<Rightarrow> string \<Rightarrow> int \<Rightarrow> element option" where
  "find w b selector timeout =
     (case active_driver b of
        Some d \<Rightarrow>
          (case drv_wait w d selector timeout of
             Inl e \<Rightarrow> None
           | Inr el \<Rightarrow> Some (WebElement el))
      | None \<Rightarrow>
          (case current_soup b of
             None \<Rightarrow> None
           | Some s \<Rightarrow>
               (case css_select_one w selector s of
                  Inl e \<Rightarrow> None
                | Inr r \<Rightarrow> map_option SoupTag r)))"

definition find_all :: "world \<Rightarrow> bot \<Rightarrow> string \<Rightarrow> element list" where
  "find_all w b selector =
     (case active_driver b of
        Some d \<Rightarrow>
          (case drv_find_elements w d selector of
             Inl e \<Rightarrow> []
           | Inr els \<Rightarrow> map WebElement els)
      | None \<Rightarrow>
          (case current_soup b of
             None \<Rightarrow> []
           | Some s \<Rightarrow>
               (case css_select w selector s of
                  Inl e \<Rightarrow> []
                | Inr ns \<Rightarrow> map SoupTag ns)))"

definition get_title :: "world \<Rightarrow> bot \<Rightarrow> string" where
  "get_title w b =
     (case active_driver b of
        Some d \<Rightarrow> (case drv_title w d of Inl e \<Rightarrow> '''' | Inr t \<Rightarrow> t)
      | None \<Rightarrow>
          (case current_soup b of
             None \<Rightarrow> ''''
           | Some s \<Rightarrow>
               (case soup_find ''title'' s of
                  None \<Rightarrow> ''''
                | Some t \<Rightarrow> get_text_strip t)))"

subsection \<open>\<open>goto\<close>\<close>

text \<open>In browser mode the driver loads the page and \<open>current_url\<close> is assigned before the
  page source is read. In requests mode a status other than 200 returns \<open>False\<close> before
  any field is assigned; an exception of the request is caught and logged as an activity.\<close>

definition goto_failed :: "exn \<Rightarrow> bot \<Rightarrow> bool \<times> bot" where
  "goto_failed e b = (False, log_activity (ActNavFailed e) b)"

definition goto_loaded :: "world \<Rightarrow> bot \<Rightarrow> string \<Rightarrow> bool \<times> bot" where
  "goto_loaded w b html =
     (let b1 = b\<lparr>current_soup := Some (parse_html w html)\<rparr>;
          title = get_title w b1
      in (True, log_activity (ActLoaded (current_url b1) title) b1))"

definition goto :: "world \<Rightarrow> bot \<Rightarrow> string \<Rightarrow> bool \<times> bot" where
  "goto w b0 url =
     (let b = log_activity (ActGoto url) b0 in
      case active_driver b of
        Some d \<Rightarrow>
          (case drv_get w d url of
             Inl e \<Rightarrow> goto_failed e b
           | Inr u \<Rightarrow>
               (case drv_current_url w d of
                  Inl e \<Rightarrow> goto_failed e b
                | Inr cu \<Rightarrow>
                    (case drv_page_source w d of
                       Inl e \<Rightarrow> goto_failed e (b\<lparr>current_url := cu\<rparr>)
                     | Inr html \<Rightarrow> goto_loaded w (b\<lparr>current_url := cu\<rparr>) html)))
      | None \<Rightarrow>
          (case http_get w url [] of
             Inl e \<Rightarrow> goto_failed e b
           | Inr r \<Rightarrow>
               if resp_status r \<noteq> 200 then (False, b)
               else goto_loaded w (b\<lparr>current_url := resp_url r\<rparr>) (resp_text r)))"

subsection \<open>\<open>click\<close>, \<open>type_text\<close>, \<open>get_text\<close>, \<open>get_attribute\<close>\<close>

text \<open>
  \<open>element_or_selector\<close> is a selector string, resolved with \<open>find\<close> and its default
  timeout, or an element. The four methods assign no field of the session, so they
  return their result only. The repository's own callers hand on what \<open>find\<close> returned
  in the same mode. For a caller that hands a parsed node to a browser-mode method, the
  node has none of the web element's methods: looking one up yields \<open>None\<close> (the node is
  taken to have no child tag of that name) and the call raises. Nodes are values here,
  so the emptying of such a node by \<open>clear()\<close> is not followed into the document.
\<close>

definition resolve_target :: "world \<Rightarrow> bot \<Rightarrow> target \<Rightarrow> element option" where
  "resolve_target w b t = (case t of BySelector s \<Rightarrow> find w b s 10 | ByElement e \<Rightarrow> Some e)"

definition element_click :: "world \<Rightarrow> nat \<Rightarrow> element \<Rightarrow> bool \<Rightarrow> exn + unit" where
  "element_click w d el use_js =
     (case el of
        WebElement h \<Rightarrow> (if use_js then drv_js_click w d h else web_click w h)
      | SoupTag n \<Rightarrow> Inl ''TypeError'')"

definition click :: "world \<Rightarrow> bot \<Rightarrow> target \<Rightarrow> bool \<Rightarrow> bool" where
  "click w b t use_js =
     (case active_driver b of
        None \<Rightarrow> False
      | Some d \<Rightarrow>
          (case resolve_target w b t of
             None \<Rightarrow> False
           | Some el \<Rightarrow>
               (case element_click w d el use_js of Inl e \<Rightarrow> False | Inr u \<Rightarrow> True)))"

text \<open>The keystroke loop stops at the first \<open>send_keys\<close> that raises.\<close>

fun send_all :: "world \<Rightarrow> nat \<Rightarrow> string \<Rightarrow> exn + unit" where
  "send_all w h [] = Inr ()"
| "send_all w h (c # cs) =
     (case web_send_keys w h c of Inl e \<Rightarrow> Inl e | Inr u \<Rightarrow> send_all w h cs)"

definition element_type :: "world \<Rightarrow> element \<Rightarrow> string \<Rightarrow> bool \<Rightarrow> exn + unit" where
  "element_type w el txt clear =
     (case el of
        WebElement h \<Rightarrow>
          (case (if clear then web_clear w h else Inr ()) of
             Inl e \<Rightarrow> Inl e
           | Inr u \<Rightarrow> send_all w h txt)
      | SoupTag n \<Rightarrow> (if txt = '''' then Inr () else Inl ''TypeError''))"

definition type_text :: "world \<Rightarrow> bot \<Rightarrow> target \<Rightarrow> string \<Rightarrow> bool \<Rightarrow> bool" where
  "type_text w b t txt clear =
     (case active_driver b of
        None \<Rightarrow> False
      | Some d \<Rightarrow>
          (case resolve_target w b t of
             None \<Rightarrow> False
           | Some el \<Rightarrow>
               (case element_type w el txt clear of Inl e \<Rightarrow> False | Inr u \<Rightarrow> True)))"

definition get_text :: "world \<Rightarrow> bot \<Rightarrow> target \<Rightarrow> string" where
  "get_text w b t =
     (case resolve_target w b t of
        None \<Rightarrow> ''''
      | Some el \<Rightarrow>
          (case active_driver b of
             Some d \<Rightarrow>
               (case el of
                  WebElement h \<Rightarrow> (case web_text w h of Inl e \<Rightarrow> '''' | Inr s \<Rightarrow> s)
                | SoupTag n \<Rightarrow> get_text_of n)
           | None \<Rightarrow>
               (case el of
                  WebElement h \<Rightarrow> ''''
                | SoupTag n \<Rightarrow> get_text_strip n)))"

definition get_attribute :: "world \<Rightarrow> bot \<Rightarrow> target \<Rightarrow> string \<Rightarrow> string" where
  "get_attribute w b t attr =
     (case resolve_target w b t of
        None \<Rightarrow> ''''
      | Some el \<Rightarrow>
          (case active_driver b of
             Some d \<Rightarrow>
               (case el of
                  WebElement h \<Rightarrow>
                    (case web_get_attribute w h attr of
                       Inl e \<Rightarrow> ''''
                     | Inr None \<Rightarrow> ''''
                     | Inr (Some v) \<Rightarrow> v)
                | SoupTag n \<Rightarrow> '''')
           | None \<Rightarrow>
               (case el of
                  WebElement h \<Rightarrow> ''''
                | SoupTag n \<Rightarrow> attr_get n attr '''')))"

subsection \<open>\<open>submit_form\<close>\<close>

text \<open>
  Requests mode seeds the dictionary \<open>form_fields\<close> from the form's \<open>input\<close>, \<open>select\<close>
  and \<open>textarea\<close> descendants: a named \<open>input\<close> whose type (default \<open>text\<close>) is one of
  \<open>text\<close>, \<open>email\<close>, \<open>password\<close>, \<open>hidden\<close> contributes its \<open>value\<close>, a named \<open>textarea\<close>
  its text, and no branch handles any other element. The dictionary keeps insertion
  order, and assigning to a key that is present replaces its value in place.
\<close>

definition seed_field :: "(string \<times> string) list \<Rightarrow> node \<Rightarrow> (string \<times> string) list" where
  "seed_field form_fields input_elem =
     (case input_elem of
        NavigableString s \<Rightarrow> form_fields
      | Tag nm attrs cs \<Rightarrow>
          (case attr_lookup input_elem ''name'' of
             None \<Rightarrow> form_fields
           | Some name \<Rightarrow>
               if name = '''' then form_fields
               else if nm = ''input'' then
                 (if attr_get input_elem ''type'' ''text''
                       \<in> set [''text'', ''email'', ''password'', ''hidden'']
                  then AList.update name (attr_get input_elem ''value'' '''') form_fields
                  else form_fields)
               else if nm = ''textarea'' then
                 AList.update name (get_text_of input_elem) form_fields
               else form_fields))"

definition seed_fields :: "node \<Rightarrow> (string \<times> string) list" where
  "seed_fields form =
     foldl seed_field [] (tag_find_all [''input'', ''select'', ''textarea''] form)"

text \<open>\<open>form_fields.update(form_data)\<close>.\<close>

definition dict_update :: "(string \<times> string) list \<Rightarrow> (string \<times> string) list \<Rightarrow> (string \<times> string) list" where
  "dict_update d items = foldl (\<lambda>acc kv. AList.update (fst kv) (snd kv) acc) d items"

text \<open>Browser mode: the values typed into the fields change the browser only; the result
  is that of clicking the submit control, or of the form's own \<open>submit\<close>.\<close>

definition element_submit :: "world \<Rightarrow> element \<Rightarrow> exn + unit" where
  "element_submit w el = (case el of WebElement h \<Rightarrow> web_submit w h | SoupTag n \<Rightarrow> Inl ''TypeError'')"

definition submit_selector :: string where
  \<open>submit_selector = ''input[type="submit"], button[type="submit"]''\<close>

definition submit_form_browser :: "world \<Rightarrow> bot \<Rightarrow> string \<Rightarrow> bool" where
  "submit_form_browser w b form_selector =
     (case find w b form_selector 10 of
        None \<Rightarrow> False
      | Some form \<Rightarrow>
          (case find w b submit_selector 10 of
             Some submit_btn \<Rightarrow> click w b (ByElement submit_btn) False
           | None \<Rightarrow> (case element_submit w form of Inl e \<Rightarrow> False | Inr u \<Rightarrow> True)))"

text \<open>Requests mode, up to the request: \<open>None\<close> when no document is loaded, when the
  selection raises or finds no form, or when resolving the action raises. The field
  dictionary goes out as the query of a GET or as the body of a POST.\<close>

datatype request = Get string "(string \<times> string) list" | Post string "(string \<times> string) list"

fun request_url :: "request \<Rightarrow> string" where
  "request_url (Get u fs) = u"
| "request_url (Post u fs) = u"


fun send :: "world \<Rightarrow> request \<Rightarrow> exn + response" where
  "send w (Get u fs) = http_get w u fs"
| "send w (Post u fs) = http_post w u fs"

definition form_request :: "world \<Rightarrow> bot \<Rightarrow> (string \<times> string) list \<Rightarrow> string \<Rightarrow> request option" where
  "form_request w b form_data form_selector =
     (case current_soup b of
        None \<Rightarrow> None
      | Some s \<Rightarrow>
          (case css_select_one w form_selector s of
             Inl e \<Rightarrow> None
           | Inr None \<Rightarrow> None
           | Inr (Some form) \<Rightarrow>
               (let action = attr_get form ''action'' '''';
                    method = lower (attr_get form ''method'' ''get'')
                in case (if action \<noteq> '''' then urljoin (current_url b) action
                         else Inr (current_url b)) of
                     Inl e \<Rightarrow> None
                   | Inr submit_url \<Rightarrow>
                       (let form_fields = dict_update (seed_fields form) form_data
                        in Some (if method = ''post'' then Post submit_url form_fields
                                 else Get submit_url form_fields)))))"

definition submit_form :: "world \<Rightarrow> bot \<Rightarrow> (string \<times> string) list \<Rightarrow> string \<Rightarrow> bool \<times> bot" where
  "submit_form w b form_data form_selector =
     (case active_driver b of
        Some d \<Rightarrow> (submit_form_browser w b form_selector, b)
      | None \<Rightarrow>
          (case form_request w b form_data form_selector of
             None \<Rightarrow> (False, b)
           | Some req \<Rightarrow>
               (case send w req of
                  Inl e \<Rightarrow> (False, b)
                | Inr r \<Rightarrow>
                    if resp_status r = 200
                    then (True, b\<lparr>current_url := resp_url r,
                                  current_soup := Some (parse_html w (resp_text r))\<rparr>)
                    else (False, b))))"

subsection \<open>\<open>extract_links\<close>, \<open>extract_images\<close>\<close>

record link_data =
  link_url :: string
  link_text :: string
  link_title :: string

record image_data =
  image_url :: string
  image_alt :: string
  image_title :: string

text \<open>One round of the loop: the three values read from the element, then the record, or
  nothing when \<open>href\<close> is empty or the round raised (which the loop logs and skips).\<close>

definition link_fields :: "world \<Rightarrow> bot \<Rightarrow> element \<Rightarrow> exn + string \<times> string \<times> string" where
  "link_fields w b link_elem =
     (case active_driver b of
        Some d \<Rightarrow>
          Inr (get_attribute w b (ByElement link_elem) ''href'',
               get_text w b (ByElement link_elem),
               get_attribute w b (ByElement link_elem) ''title'')
      | None \<Rightarrow>
          (case link_elem of
             SoupTag n \<Rightarrow> Inr (attr_get n ''href'' '''', get_text_strip n, attr_get n ''title'' '''')
           | WebElement h \<Rightarrow> Inl ''AttributeError''))"

definition link_of :: "world \<Rightarrow> bot \<Rightarrow> element \<Rightarrow> link_data option" where
  "link_of w b link_elem =
     (case link_fields w b link_elem of
        Inl e \<Rightarrow> None
      | Inr (href, txt, title) \<Rightarrow>
          if href = '''' then None
          else
            (case urljoin (current_url b) href of
               Inl e \<Rightarrow> None
             | Inr full_url \<Rightarrow>
                 Some \<lparr>link_url = full_url, link_text = txt, link_title = title\<rparr>))"

definition extract_links :: "world \<Rightarrow> bot \<Rightarrow> link_data list \<times> bot" where
  "extract_links w b0 =
     (let b = log_activity ActExtractingLinks b0;
          links = List.map_filter (link_of w b) (find_all w b ''a[href]'')
      in (links, log_activity (ActLinksDone (length links)) b))"

definition image_fields :: "world \<Rightarrow> bot \<Rightarrow> element \<Rightarrow> exn + string \<times> string \<times> string" where
  "image_fields w b img =
     (case active_driver b of
        Some d \<Rightarrow>
          Inr (get_attribute w b (ByElement img) ''src'',
               get_attribute w b (ByElement img) ''alt'',
               get_attribute w b (ByElement img) ''title'')
      | None \<Rightarrow>
          (case img of
             SoupTag n \<Rightarrow> Inr (attr_get n ''src'' '''', attr_get n ''alt'' '''', attr_get n ''title'' '''')
           | WebElement h \<Rightarrow> Inl ''AttributeError''))"

definition image_of :: "world \<Rightarrow> bot \<Rightarrow> element \<Rightarrow> image_data option" where
  "image_of w b img =
     (case image_fields w b img of
        Inl e \<Rightarrow> None
      | Inr (src, alt, title) \<Rightarrow>
          if src = '''' then None
          else
            (case urljoin (current_url b) src of
               Inl e \<Rightarrow> None
             | Inr full_url \<Rightarrow>
                 Some \<lparr>image_url = full_url, image_alt = alt, image_title = title\<rparr>))"

definition extract_images :: "world \<Rightarrow> bot \<Rightarrow> image_data list \<times> bot" where
  "extract_images w b0 =
     (let b = log_activity ActExtractingImages b0;
          images = List.map_filter (image_of w b) (find_all w b ''img'')
      in (images, log_activity (ActImagesDone (length images)) b))"

subsection \<open>\<open>get_page_info\<close>\<close>

record page_info =
  pi_url :: string
  pi_title :: string
  pi_description :: string
  pi_keywords :: string
  pi_links_count :: nat
  pi_images_count :: nat
  pi_forms_count :: nat
  pi_text_length :: nat
  pi_mode :: string

definition info_default :: "bot \<Rightarrow> page_info" where
  "info_default b =
     \<lparr>pi_url = current_url b, pi_title = '''', pi_description = '''', pi_keywords = '''',
      pi_links_count = 0, pi_images_count = 0, pi_forms_count = 0, pi_text_length = 0,
      pi_mode = (if active_driver b \<noteq> None then ''browser'' else ''requests'')\<rparr>"

definition meta_content :: "string \<Rightarrow> soup \<Rightarrow> string" where
  "meta_content nm s =
     (case soup_find_attr ''meta'' ''name'' nm s of
        None \<Rightarrow> ''''
      | Some m \<Rightarrow> attr_get m ''content'' '''')"

text \<open>The entries are assigned in the order of the source, so an exception of one of the
  three selections leaves the title, the description and the keywords assigned and the
  counts at zero. The second component is the exception that ended the block, if any.\<close>

definition fill_info :: "world \<Rightarrow> page_info \<Rightarrow> soup \<Rightarrow> page_info \<times> exn option" where
  "fill_info w info s =
     (let info1 =
            (case soup_find ''title'' s of
               None \<Rightarrow> info
             | Some title_elem \<Rightarrow>
                 if pi_title info = '''' then info\<lparr>pi_title := get_text_strip title_elem\<rparr>
                 else info);
          info2 = info1\<lparr>pi_description := meta_content ''description'' s,
                         pi_keywords := meta_content ''keywords'' s\<rparr>
      in case css_select w ''a[href]'' s of
           Inl e \<Rightarrow> (info2, Some e)
         | Inr links \<Rightarrow>
             (case css_select w ''img'' s of
                Inl e \<Rightarrow> (info2, Some e)
              | Inr images \<Rightarrow>
                  (case css_select w ''form'' s of
                     Inl e \<Rightarrow> (info2, Some e)
                   | Inr forms \<Rightarrow>
                       (info2\<lparr>pi_links_count := length links,
                              pi_images_count := length images,
                              pi_forms_count := length forms,
                              pi_text_length := length (strip (soup_get_text s))\<rparr>,
                        None))))"

definition finish_info :: "world \<Rightarrow> bot \<Rightarrow> page_info \<Rightarrow> soup \<Rightarrow> page_info \<times> bot" where
  "finish_info w b info s =
     (case fill_info w info s of
        (i, Some e) \<Rightarrow> (i, log_activity (ActInfoFailed e) b)
      | (i, None) \<Rightarrow>
          (i, log_activity (ActAnalysisDone (pi_links_count i) (pi_images_count i)) b))"

definition get_page_info :: "world \<Rightarrow> bot \<Rightarrow> page_info \<times> bot" where
  "get_page_info w b0 =
     (let b = log_activity ActAnalyzing b0;
          info = info_default b
      in case active_driver b of
           Some d \<Rightarrow>
             (case drv_title w d of
                Inl e \<Rightarrow> (info, log_activity (ActInfoFailed e) b)
              | Inr t \<Rightarrow>
                  (case drv_page_source w d of
                     Inl e \<Rightarrow> (info\<lparr>pi_title := t\<rparr>, log_activity (ActInfoFailed e) b)
                   | Inr html \<Rightarrow> finish_info w b (info\<lparr>pi_title := t\<rparr>) (parse_html w html)))
         | None \<Rightarrow>
             (case current_soup b of
                None \<Rightarrow> (info, b)
              | Some s \<Rightarrow> finish_info w b info s))"

subsection \<open>\<open>search_google\<close>, \<open>search_bing\<close>\<close>

text \<open>
  Both searches load the engine's home page and give up when that fails. In browser
  mode they type the query into the search box and send the return key; the click on a
  consent button and the typing change the browser only, and their results are
  discarded. In requests mode they submit the page's search form.
\<close>

definition google_box_selector :: string where
  \<open>google_box_selector = ''input[name="q"], textarea[name="q"]''\<close>

definition bing_box_selector :: string where
  \<open>bing_box_selector = ''input[name="q"]''\<close>

definition search_form_selector :: string where
  \<open>search_form_selector = ''form[action="/search"]''\<close>

definition element_send_return :: "world \<Rightarrow> element \<Rightarrow> exn + unit" where
  "element_send_return w el =
     (case el of WebElement h \<Rightarrow> web_send_return w h | SoupTag n \<Rightarrow> Inl ''TypeError'')"

definition search_with :: "world \<Rightarrow> bot \<Rightarrow> string \<Rightarrow> string \<Rightarrow> string \<Rightarrow> bool \<times> bot" where
  "search_with w b0 home box_selector query =
     (let (ok, b) = goto w b0 home in
      if \<not> ok then (False, b)
      else
        (case active_driver b of
           Some d \<Rightarrow>
             (case find w b box_selector 10 of
                None \<Rightarrow> (False, b)
              | Some search_box \<Rightarrow>
                  (case element_send_return w search_box of
                     Inl e \<Rightarrow> (False, b)
                   | Inr u \<Rightarrow> (True, b)))
         | None \<Rightarrow> submit_form w b [(''q'', query)] search_form_selector))"

definition search_google :: "world \<Rightarrow> bot \<Rightarrow> string \<Rightarrow> bool \<times> bot" where
  "search_google w b query = search_with w b ''https://www.google.com'' google_box_selector query"

definition search_bing :: "world \<Rightarrow> bot \<Rightarrow> string \<Rightarrow> bool \<times> bot" where
  "search_bing w b query = search_with w b ''https://www.bing.com'' bing_box_selector query"

subsection \<open>\<open>analyze_social_media_content\<close>\<close>

text \<open>\<open>sub in s\<close> on strings.\<close>

primrec contains :: "string \<Rightarrow> string \<Rightarrow> bool" where
  "contains sub [] = (sub = [])"
| "contains sub (c # cs) = (take (length sub) (c # cs) = sub \<or> contains sub cs)"

record analysis =
  an_platform :: string
  an_post_type :: string
  an_indicators :: "string list"
  an_meta :: "(string \<times> string) list"
  an_dynamic :: bool

definition platform_of :: "string \<Rightarrow> string \<times> string" where
  "platform_of url_lower =
     (if contains ''x.com'' url_lower \<or> contains ''twitter.com'' url_lower
      then (''twitter/x'', if contains ''/status/'' url_lower then ''tweet'' else ''unknown'')
      else if contains ''facebook.com'' url_lower then (''facebook'', ''unknown'')
      else if contains ''instagram.com'' url_lower then (''instagram'', ''unknown'')
      else if contains ''linkedin.com'' url_lower then (''linkedin'', ''unknown'')
      else (''unknown'', ''unknown''))"

definition soup_find_all :: "string list \<Rightarrow> soup \<Rightarrow> node list" where
  "soup_find_all names s = filter (is_tag_named names) (soup_descendants s)"

definition uses_framework :: "node \<Rightarrow> bool" where
  "uses_framework script =
     (attr_get script ''src'' '''' \<noteq> '''' \<and>
      list_ex (\<lambda>framework. contains framework (attr_get script ''src'' ''''))
        [''react'', ''vue'', ''angular'', ''client-web''])"

definition meta_step :: "(string \<times> string) list \<Rightarrow> node \<Rightarrow> (string \<times> string) list" where
  "meta_step meta_data meta =
     (let property_val = attr_get meta ''property'' '''';
          name_val = attr_get meta ''name'' '''';
          content_val = attr_get meta ''content'' ''''
      in if take 3 property_val = ''og:'' \<or> take 8 property_val = ''twitter:''
         then AList.update property_val content_val meta_data
         else if name_val \<in> set [''description'', ''keywords'', ''author'']
         then AList.update name_val content_val meta_data
         else meta_data)"

definition analyze_soup :: "analysis \<Rightarrow> soup \<Rightarrow> analysis" where
  "analyze_soup a s =
     (let a1 = (if list_ex uses_framework (soup_find_all [''script''] s)
                then a\<lparr>an_dynamic := True,
                       an_indicators := an_indicators a @ [''JavaScript framework detected'']\<rparr>
                else a);
          a2 = (if length (strip (soup_get_text s)) < 1000
                then a1\<lparr>an_indicators := an_indicators a1
                          @ [''Minimal text content - likely requires JavaScript'']\<rparr>
                else a1)
      in a2\<lparr>an_meta := foldl meta_step (an_meta a2) (soup_find_all [''meta''] s)\<rparr>)"

definition analyze_social_media_content :: "bot \<Rightarrow> analysis \<times> bot" where
  "analyze_social_media_content b0 =
     (let b = log_activity ActSocial b0;
          (platform, post_type) = platform_of (lower (current_url b));
          a0 = \<lparr>an_platform = platform, an_post_type = post_type, an_indicators = [],
                an_meta = [], an_dynamic = False\<rparr>;
          a = (case current_soup b of None \<Rightarrow> a0 | Some s \<Rightarrow> analyze_soup a0 s)
      in (a, log_activity (ActSocialDone (an_platform a) (an_dynamic a)) b))"

subsection \<open>Sequences of calls\<close>

text \<open>
  A caller drives the session through its public methods, one call after the other.
  Each call meets the world of its moment, so a run is a list of pairs of a world and a
  call; \<open>exec\<close> is the session after one call. The public methods that are no call here
  (\<open>scroll\<close>, \<open>screenshot\<close>, \<open>save_page\<close>, \<open>wait_for\<close>, \<open>execute_js\<close>, \<open>get_cookies\<close>,
  \<open>get_current_url\<close>, \<open>close\<close>) assign no field of the session.
\<close>

datatype call =
    StartBrowser
  | Goto string
  | Find string int
  | FindAll string
  | Click target bool
  | TypeText target string bool
  | GetText target
  | GetAttribute target string
  | SubmitForm "(string \<times> string) list" string
  | ExtractLinks
  | ExtractImages
  | GetPageInfo
  | GetTitle
  | SearchOnGoogle string
  | SearchOnBing string
  | AnalyzeSocialMedia

fun exec :: "world \<Rightarrow> call \<Rightarrow> bot \<Rightarrow> bot" where
  "exec w StartBrowser b = snd (start_browser w b)"
| "exec w (Goto url) b = snd (goto w b url)"
| "exec w (SubmitForm form_data form_selector) b = snd (submit_form w b form_data form_selector)"
| "exec w ExtractLinks b = snd (extract_links w b)"
| "exec w ExtractImages b = snd (extract_images w b)"
| "exec w GetPageInfo b = snd (get_page_info w b)"
| "exec w (SearchOnGoogle query) b = snd (search_google w b query)"
| "exec w (SearchOnBing query) b = snd (search_bing w b query)"
| "exec w AnalyzeSocialMedia b = snd (analyze_social_media_content b)"
| "exec w (Find selector timeout) b = b"
| "exec w (FindAll selector) b = b"
| "exec w (Click t use_js) b = b"
| "exec w (TypeText t txt clear) b = b"
| "exec w (GetText t) b = b"
| "exec w (GetAttribute t attr) b = b"
| "exec w GetTitle b = b"


section \<open>The worker's entry point: \<open>main\<close>\<close>

text \<open>
  The parsed command line. An option that takes a value is \<open>None\<close> when it is absent;
  \<open>--urls\<close> takes one or more values. The tests \<open>if args.urls\<close>, \<open>if args.search\<close>, ...
  are Python's truth tests: \<open>None\<close>, the empty list and the empty string are false.
\<close>

record args =
  arg_url :: "string option"
  arg_urls :: "string list option"
  arg_search :: "string option"
  arg_bing :: "string option"
  arg_browser :: bool
  arg_headless :: bool
  arg_screenshot :: bool
  arg_info :: bool
  arg_save :: bool
  arg_links :: bool
  arg_images :: bool
  arg_interactive :: bool
  arg_batch :: bool
  arg_tor :: bool

definition urls_to_process :: "string list" where
  "urls_to_process =
     [''https://x.com/Hitansh54/status/1931754193489957133'',
      ''https://x.com/Hitansh54/status/1931410374139777334'',
      ''https://x.com/Hitansh54/status/1931399970139296013'',
      ''https://x.com/Hitansh54/status/1930697596261060654'']"

fun truthy :: "'a list option \<Rightarrow> bool" where
  "truthy None = False"
| "truthy (Some xs) = (xs \<noteq> [])"

text \<open>What \<open>main\<close> goes on to do: the interactive shell, \<open>process_multiple_urls\<close> with its
  arguments, or the single-URL block with the bot's constructor flags and its first call.\<close>

datatype first_call = SearchGoogle string | SearchBing string | GotoUrl string

record batch_job =
  urls_list :: "string list"
  browser_mode :: bool
  want_links :: bool
  want_images :: bool
  save_pages :: bool
  job_tor :: bool

datatype job =
    Interactive
  | ProcessMultiple batch_job
  | SingleUrl bool bool first_call

definition single_call :: "args \<Rightarrow> first_call" where
  "single_call a =
     (if truthy (arg_search a) then SearchGoogle (the (arg_search a))
      else if truthy (arg_bing a) then SearchBing (the (arg_bing a))
      else if truthy (arg_url a) then GotoUrl (the (arg_url a))
      else GotoUrl (case urls_to_process of [] \<Rightarrow> ''https://www.google.com'' | u # _ \<Rightarrow> u))"

definition main :: "args \<Rightarrow> job" where
  "main a =
     (if arg_interactive a then Interactive
      else if arg_batch a then
        ProcessMultiple \<lparr>urls_list = urls_to_process, browser_mode = arg_browser a,
          want_links = arg_links a, want_images = arg_images a, save_pages = arg_save a,
          job_tor = arg_tor a\<rparr>
      else if truthy (arg_urls a) then
        ProcessMultiple \<lparr>urls_list = the (arg_urls a), browser_mode = arg_browser a,
          want_links = arg_links a, want_images = arg_images a, save_pages = arg_save a,
          job_tor = False\<rparr>
      else SingleUrl (arg_browser a) (arg_headless a) (single_call a))"

text \<open>\<open>process_multiple_urls\<close> visits the list in order with one bot; every URL yields one
  result, whether its page loaded or not. The world of each visit is given per URL. The
  bot is the one that \<open>with UltimateBot(...)\<close> constructs and starts; the name of the file
  that \<open>save_page\<close> writes is left out of the result.\<close>

record url_result =
  res_url :: string
  res_success :: bool
  res_info :: "page_info option"
  res_links :: "link_data list"
  res_images :: "image_data list"

fun process_urls :: "(string \<Rightarrow> world) \<Rightarrow> bot \<Rightarrow> bool \<Rightarrow> bool \<Rightarrow> string list \<Rightarrow> url_result list" where
  "process_urls ws b el ei [] = []"
| "process_urls ws b el ei (url # rest) =
     (let w = ws url; (ok, b1) = goto w b url in
      if ok then
        (let (info, b2) = get_page_info w b1;
             (links, b3) = (if el then extract_links w b2 else ([], b2));
             (images, b4) = (if ei then extract_images w b3 else ([], b3))
         in \<lparr>res_url = url, res_success = True, res_info = Some info, res_links = links,
              res_images = images\<rparr> # process_urls ws b4 el ei rest)
      else
        \<lparr>res_url = url, res_success = False, res_info = None, res_links = [],
          res_images = []\<rparr> # process_urls ws b1 el ei rest)"

definition process_multiple_urls :: "world \<Rightarrow> (string \<Rightarrow> world) \<Rightarrow> batch_job \<Rightarrow> url_result list" where
  "process_multiple_urls w0 ws j =
     process_urls ws (snd (start_browser w0 (init_bot (browser_mode j) False True (job_tor j))))
       (want_links j) (want_images j) (urls_list j)"

section \<open>The supervisor: \<open>run_bot_loop.py\<close>\<close>











section \<open>Concrete worlds and sessions\<close>

text \<open>
  The worlds below are used to run the definitions on concrete inputs. In \<open>no_world\<close>
  every collaborator fails: no network, no browser, and a selector engine that rejects
  every selector. \<open>select_builtin\<close> answers the three selectors that the bot itself
  issues, by their CSS meaning.
\<close>

definition select_builtin :: "string \<Rightarrow> soup \<Rightarrow> exn + node list" where
  "select_builtin selector s =
     (if selector = ''a[href]''
      then Inr (filter (\<lambda>n. is_tag_named [''a''] n \<and> attr_lookup n ''href'' \<noteq> None)
                  (soup_descendants s))
      else if selector = ''img'' then Inr (filter (is_tag_named [''img'']) (soup_descendants s))
      else if selector = ''form'' then Inr (filter (is_tag_named [''form'']) (soup_descendants s))
      else Inl ''unsupported selector'')"

definition no_world :: world where
  "no_world =
     \<lparr>http_get = (\<lambda>u ps. Inl ''ConnectionError''),
      http_post = (\<lambda>u ps. Inl ''ConnectionError''),
      parse_html = (\<lambda>h. [NavigableString h]),
      css_select = (\<lambda>sel s. Inl ''SelectorSyntaxError''),
      chrome_uc = (\<lambda>hl. Inl ''WebDriverException''),
      chrome_std = (\<lambda>hl. Inl ''WebDriverException''),
      drv_get = (\<lambda>d u. Inl ''WebDriverException''),
      drv_current_url = (\<lambda>d. Inl ''WebDriverException''),
      drv_page_source = (\<lambda>d. Inl ''WebDriverException''),
      drv_title = (\<lambda>d. Inl ''WebDriverException''),
      drv_wait = (\<lambda>d sel t. Inl ''TimeoutException''),
      drv_find_elements = (\<lambda>d sel. Inl ''WebDriverException''),
      drv_js_click = (\<lambda>d h. Inl ''WebDriverException''),
      web_click = (\<lambda>h. Inl ''WebDriverException''),
      web_clear = (\<lambda>h. Inl ''WebDriverException''),
      web_send_keys = (\<lambda>h c. Inl ''WebDriverException''),
      web_send_return = (\<lambda>h. Inl ''WebDriverException''),
      web_submit = (\<lambda>h. Inl ''WebDriverException''),
      web_text = (\<lambda>h. Inl ''WebDriverException''),
      web_get_attribute = (\<lambda>h a. Inl ''WebDriverException'')\<rparr>"

text \<open>A server that answers every request with the given status and body, at the URL
  that was asked for, behind the built-in selector engine and a parser with a fixed
  answer.\<close>

definition server_world :: "int \<Rightarrow> string \<Rightarrow> soup \<Rightarrow> world" where
  "server_world status body tree =
     no_world\<lparr>http_get := (\<lambda>u ps. Inr \<lparr>resp_status = status, resp_url = u, resp_text = body\<rparr>),
              http_post := (\<lambda>u ps. Inr \<lparr>resp_status = status, resp_url = u, resp_text = body\<rparr>),
              parse_html := (\<lambda>h. tree),
              css_select := select_builtin\<rparr>"

text \<open>The session of a bot constructed for requests mode, and of one whose browser has
  started (driver handle 0).\<close>

definition requests_bot :: bot where
  "requests_bot = init_bot False False True False"

definition browser_bot :: bot where
  "browser_bot = (init_bot True False True False)\<lparr>driver := Some 0\<rparr>"

text \<open>The page of the link scenario.\<close>

definition site_markup :: string where
  \<open>site_markup = ''<a href="/a">X</a><a href="http://ext/b">Y</a>''\<close>

definition site_tree :: soup where
  "site_tree =
     [Tag ''a'' [(''href'', ''/a'')] [NavigableString ''X''],
      Tag ''a'' [(''href'', ''http://ext/b'')] [NavigableString ''Y'']]"

definition site_world :: world where
  "site_world = server_world 200 site_markup site_tree"

definition site_bot :: bot where
  "site_bot = snd (goto site_world requests_bot ''https://site/p'')"







text \<open>A browser that shows its start page, whose \<open>body\<close> element has the handle 7.\<close>

definition blank_page_world :: world where
  "blank_page_world =
     no_world\<lparr>drv_wait := (\<lambda>d sel t. if sel = ''body'' then Inr 7 else Inl ''TimeoutException'')\<rparr>"

text \<open>A command line with both \<open>--batch\<close> and \<open>--urls\<close>, and one with nothing but \<open>--bing\<close>.\<close>

definition no_args :: args where
  "no_args =
     \<lparr>arg_url = None, arg_urls = None, arg_search = None, arg_bing = None,
      arg_browser = False, arg_headless = False, arg_screenshot = False, arg_info = False,
      arg_save = False, arg_links = False, arg_images = False, arg_interactive = False,
      arg_batch = False, arg_tor = False\<rparr>"

definition batch_and_urls_args :: args where
  "batch_and_urls_args = no_args\<lparr>arg_batch := True, arg_urls := Some [''https://example.org/'']\<rparr>"


text \<open>The session after loading a page without any element.\<close>

definition empty_bot :: bot where
  "empty_bot = snd (goto (server_world 200 '''' []) requests_bot ''https://site/p'')"


section \<open>Properties\<close>

subsection \<open>Logging changes the activity log only\<close>

lemma active_driver_log [simp]: "active_driver (log_activity a b) = active_driver b"
  by (simp add: active_driver_def log_activity_def)

lemma log_activity_fields [simp]:
  "current_url (log_activity a b) = current_url b"
  "current_soup (log_activity a b) = current_soup b"
  "use_browser (log_activity a b) = use_browser b"
  "driver (log_activity a b) = driver b"
  by (simp_all add: log_activity_def)

lemma find_all_log [simp]: "find_all w (log_activity a b) sel = find_all w b sel"
  by (simp add: find_all_def split: option.splits)

lemmas world_defs = no_world_def server_world_def select_builtin_def blank_page_world_def

lemmas bot_defs = requests_bot_def browser_bot_def init_bot_def active_driver_def

lemma requests_bot_mode: "active_driver requests_bot = None"
  by (simp add: bot_defs)

subsection \<open>Navigation in requests mode\<close>




subsection \<open>The link scenario\<close>

lemma site_bot_eq:
  "site_bot = requests_bot\<lparr>current_url := ''https://site/p'', current_soup := Some site_tree,
     activity_log := [ActGoto ''https://site/p'', ActLoaded ''https://site/p'' '''']\<rparr>"
  by (simp add: site_bot_def goto_def goto_loaded_def get_title_def soup_find_def
      soup_descendants_def site_tree_def site_world_def world_defs bot_defs log_activity_def
      Let_def)

lemma urljoin_site_a: "urljoin ''https://site/p'' ''/a'' = Inr ''https://site/a''"
  by code_simp

lemma urljoin_site_ext: "urljoin ''https://site/p'' ''http://ext/b'' = Inr ''http://ext/b''"
  by code_simp

lemma site_links:
  "fst (extract_links site_world site_bot) =
     [\<lparr>link_url = ''https://site/a'', link_text = ''X'', link_title = ''''\<rparr>,
      \<lparr>link_url = ''http://ext/b'', link_text = ''Y'', link_title = ''''\<rparr>]"
  by (simp add: site_bot_eq extract_links_def find_all_def link_of_def link_fields_def
      site_tree_def site_world_def world_defs bot_defs log_activity_def Let_def
      soup_descendants_def attr_get_def get_text_strip_def strip_def is_space_def
      List.map_filter_simps urljoin_site_a urljoin_site_ext)

text \<open>
  C2, as the code has it: from \<open>https://site/p\<close> the link \<open>/a\<close> resolves to
  \<open>https://site/a\<close> (the standard resolution of an absolute path), and the absolute link
  is kept; the records carry the stripped text and an empty title.
\<close>

theorem extract_links_site_scenario:
  "fst (extract_links site_world (snd (goto site_world requests_bot ''https://site/p''))) =
     [\<lparr>link_url = ''https://site/a'', link_text = ''X'', link_title = ''''\<rparr>,
      \<lparr>link_url = ''http://ext/b'', link_text = ''Y'', link_title = ''''\<rparr>]"
  using site_links by (simp add: site_bot_def)

theorem extract_links_site_counterexample:
  "map (\<lambda>l. (link_url l, link_text l))
     (fst (extract_links site_world (snd (goto site_world requests_bot ''https://site/p''))))
   \<noteq> [(''https://site/p/a'', ''X''), (''http://ext/b'', ''Y'')]"
  using site_links by (simp add: site_bot_def)

subsection \<open>Browser-only actions in requests mode\<close>

text \<open>
  C4, as the code has it: in requests mode \<open>click\<close> and \<open>type_text\<close> return \<open>False\<close>, the
  value of every other failure of theirs, without raising and without touching the
  session.
\<close>

theorem click_type_requests_mode:
  assumes "active_driver b = None"
  shows "click w b t use_js = False \<and> type_text w b t txt clear = False \<and>
         exec w (Click t use_js) b = b \<and> exec w (TypeText t txt clear) b = b"
  using assms by (simp add: click_def type_text_def)

theorem click_type_requests_mode_witness:
  "active_driver requests_bot = None \<and>
   click no_world requests_bot (BySelector ''#go'') False = False \<and>
   type_text no_world requests_bot (BySelector ''#q'') ''cats'' True = False"
  using click_type_requests_mode [OF requests_bot_mode, of no_world "BySelector ''#go''" False]
    click_type_requests_mode [OF requests_bot_mode, of no_world "BySelector ''#q''" _ "''cats''" True]
    requests_bot_mode
  by simp

text \<open>The result is not distinguishable from an ordinary failure: a browser-mode session
  whose page has no such element returns the same value.\<close>

theorem click_type_indistinguishable_counterexample:
  "active_driver requests_bot = None \<and> active_driver browser_bot = Some 0 \<and>
   click no_world requests_bot (BySelector ''#go'') False
     = click no_world browser_bot (BySelector ''#go'') False \<and>
   type_text no_world requests_bot (BySelector ''#q'') ''cats'' True
     = type_text no_world browser_bot (BySelector ''#q'') ''cats'' True"
  by (simp add: click_def type_text_def resolve_target_def find_def world_defs bot_defs)

subsection \<open>Extraction from a page without matches\<close>

text \<open>
  C8: when no element matches the link selector, \<open>extract_links\<close> returns the empty list,
  and when none matches the image selector, so does \<open>extract_images\<close>; both are total
  functions, so neither fails. In requests mode the elements are those that the
  selection on the document returns.
\<close>

theorem extract_no_matches:
  "(find_all w b ''a[href]'' = [] \<longrightarrow> fst (extract_links w b) = []) \<and>
   (find_all w b ''img'' = [] \<longrightarrow> fst (extract_images w b) = []) \<and>
   (active_driver b = None \<and> current_soup b = Some s \<and> css_select w ''a[href]'' s = Inr []
      \<longrightarrow> fst (extract_links w b) = []) \<and>
   (active_driver b = None \<and> current_soup b = Some s \<and> css_select w ''img'' s = Inr []
      \<longrightarrow> fst (extract_images w b) = [])"
proof -
  have links: "find_all w b ''a[href]'' = [] \<Longrightarrow> fst (extract_links w b) = []"
    by (simp add: extract_links_def Let_def List.map_filter_simps)
  have images: "find_all w b ''img'' = [] \<Longrightarrow> fst (extract_images w b) = []"
    by (simp add: extract_images_def Let_def List.map_filter_simps)
  have sel: "active_driver b = None \<and> current_soup b = Some s \<and> css_select w q s = Inr []
      \<Longrightarrow> find_all w b q = []" for q
    by (simp add: find_all_def)
  from links images sel show ?thesis by blast
qed

theorem extract_no_matches_witness:
  "active_driver empty_bot = None \<and> current_soup empty_bot = Some [] \<and>
   css_select (server_world 200 '''' []) ''a[href]'' [] = Inr [] \<and>
   css_select (server_world 200 '''' []) ''img'' [] = Inr [] \<and>
   fst (extract_links (server_world 200 '''' []) empty_bot) = [] \<and>
   fst (extract_images (server_world 200 '''' []) empty_bot) = []"
proof -
  have b: "active_driver empty_bot = None" "current_soup empty_bot = Some []"
    by (simp_all add: empty_bot_def goto_def goto_loaded_def world_defs bot_defs Let_def)
  have s: "css_select (server_world 200 '''' []) ''a[href]'' [] = Inr []"
    "css_select (server_world 200 '''' []) ''img'' [] = Inr []"
    by (simp_all add: world_defs soup_descendants_def)
  from extract_no_matches [of "server_world 200 '''' []" empty_bot "[]"] b s
  show ?thesis by simp
qed

subsection \<open>Before any load\<close>

text \<open>
  C9, as the code has it: in requests mode, while the session holds no document, \<open>find\<close>
  returns \<open>None\<close>, \<open>find_all\<close>, \<open>extract_links\<close> and \<open>extract_images\<close> return the empty
  list and \<open>get_title\<close> returns the empty string.
\<close>

theorem no_document_defaults:
  assumes "active_driver b = None" and "current_soup b = None"
  shows "find w b selector timeout = None \<and> find_all w b selector = [] \<and>
         fst (extract_links w b) = [] \<and> fst (extract_images w b) = [] \<and>
         get_title w b = ''''"
  using assms
  by (simp add: find_def find_all_def get_title_def extract_links_def extract_images_def
      Let_def List.map_filter_simps)

theorem no_document_defaults_witness:
  "active_driver requests_bot = None \<and> current_soup requests_bot = None \<and>
   find no_world requests_bot ''body'' 10 = None \<and>
   find_all no_world requests_bot ''body'' = [] \<and>
   fst (extract_links no_world requests_bot) = [] \<and>
   fst (extract_images no_world requests_bot) = [] \<and>
   get_title no_world requests_bot = ''''"
proof -
  have s: "current_soup requests_bot = None"
    by (simp add: bot_defs)
  from no_document_defaults [OF requests_bot_mode s, of no_world "''body''" 10]
    requests_bot_mode s
  show ?thesis by simp
qed

text \<open>In browser mode the methods ask the browser, whatever the session holds: before any
  load the browser shows its start page, and \<open>find\<close> returns that page's \<open>body\<close>.\<close>

theorem no_document_browser_counterexample:
  "current_soup browser_bot = None \<and> current_url browser_bot = '''' \<and>
   find blank_page_world browser_bot ''body'' 10 = Some (WebElement 7)"
  by (simp add: find_def world_defs bot_defs)

subsection \<open>A failed submission changes nothing\<close>






subsection \<open>The fields of a submitted form\<close>











subsection \<open>The worker's command line\<close>

lemma process_urls_visits:
  "map res_url (process_urls ws b el ei urls) = urls"
  by (induction urls arbitrary: b) (simp_all add: Let_def case_prod_beta)

lemma process_multiple_urls_visits:
  "map res_url (process_multiple_urls w0 ws j) = urls_list j"
  by (simp add: process_multiple_urls_def process_urls_visits)

text \<open>
  C7, as the code has it: without \<open>--interactive\<close>, \<open>--batch\<close> makes the worker process
  the fixed internal list, also when \<open>--urls\<close> is given; without \<open>--batch\<close>, the URLs of
  \<open>--urls\<close> are processed, in their order; without both, the first call is picked in
  the order \<open>--search\<close>, \<open>--bing\<close>, \<open>--url\<close>, else the first entry of the internal list.
\<close>

theorem main_dispatch:
  assumes "\<not> arg_interactive a"
  shows "(arg_batch a \<longrightarrow>
            (\<exists>j. main a = ProcessMultiple j \<and> urls_list j = urls_to_process \<and>
                 (\<forall>w0 ws. map res_url (process_multiple_urls w0 ws j) = urls_to_process))) \<and>
         (\<forall>us. \<not> arg_batch a \<and> arg_urls a = Some us \<and> us \<noteq> [] \<longrightarrow>
            (\<exists>j. main a = ProcessMultiple j \<and> urls_list j = us \<and>
                 (\<forall>w0 ws. map res_url (process_multiple_urls w0 ws j) = us))) \<and>
         (\<not> arg_batch a \<and> \<not> truthy (arg_urls a) \<longrightarrow>
            main a = SingleUrl (arg_browser a) (arg_headless a) (single_call a)) \<and>
         (\<forall>q. arg_search a = Some q \<and> q \<noteq> '''' \<longrightarrow> single_call a = SearchGoogle q) \<and>
         (\<forall>q. \<not> truthy (arg_search a) \<and> arg_bing a = Some q \<and> q \<noteq> '''' \<longrightarrow>
            single_call a = SearchBing q) \<and>
         (\<forall>u. \<not> truthy (arg_search a) \<and> \<not> truthy (arg_bing a) \<and> arg_url a = Some u \<and> u \<noteq> ''''
            \<longrightarrow> single_call a = GotoUrl u) \<and>
         (\<not> truthy (arg_search a) \<and> \<not> truthy (arg_bing a) \<and> \<not> truthy (arg_url a) \<longrightarrow>
            single_call a = GotoUrl ''https://x.com/Hitansh54/status/1931754193489957133'')"
  using assms
  by (simp add: main_def single_call_def process_multiple_urls_visits urls_to_process_def)

theorem main_dispatch_witness:
  "\<not> arg_interactive batch_and_urls_args \<and> arg_batch batch_and_urls_args \<and>
   (\<exists>j. main batch_and_urls_args = ProcessMultiple j \<and> urls_list j = urls_to_process)"
proof -
  have a: "\<not> arg_interactive batch_and_urls_args" "arg_batch batch_and_urls_args"
    by (simp_all add: batch_and_urls_args_def no_args_def)
  from main_dispatch [OF a(1)] a show ?thesis by blast
qed

text \<open>With both \<open>--batch\<close> and \<open>--urls\<close> the internal list is processed, not the URLs of
  \<open>--urls\<close>.\<close>

theorem main_batch_and_urls_counterexample:
  "arg_batch batch_and_urls_args \<and>
   arg_urls batch_and_urls_args = Some [''https://example.org/''] \<and>
   main batch_and_urls_args =
     ProcessMultiple \<lparr>urls_list = urls_to_process, browser_mode = False, want_links = False,
       want_images = False, save_pages = False, job_tor = False\<rparr> \<and>
   urls_to_process \<noteq> [''https://example.org/'']"
  by (simp add: main_def batch_and_urls_args_def no_args_def urls_to_process_def)

subsection \<open>Degradation to requests mode\<close>




















subsection \<open>The supervisor loop\<close>









end
